theory Spec2Isabelle
  imports Complex_Main "HOL-Library.AList"
begin

section \<open>Strings (Go package strings, as used by the exporter)\<close>

text \<open>
  A Go string is a byte sequence; it is modelled as a \<open>string\<close> (a list of bytes).
  \<open>strings.ToLower\<close>, which lowers every cased letter of Unicode, is a function of
  the Go library: the definitions below that call it take it as their first parameter
  \<open>ToLower\<close>, and what is proved of them holds for every such function.
\<close>

text \<open>\<open>strings.Replace(s, old, new, -1)\<close> for a one-byte \<open>old\<close>: every occurrence.\<close>

definition ReplaceAll :: "string \<Rightarrow> char \<Rightarrow> string \<Rightarrow> string" where
  "ReplaceAll s old new = concat (map (\<lambda>c. if c = old then new else [c]) s)"

text \<open>
  main.go, cleanName: spaces become underscores, parentheses and slashes are removed,
  the rest is lowered.
\<close>

definition cleanName :: "(string \<Rightarrow> string) \<Rightarrow> string \<Rightarrow> string" where
  "cleanName ToLower s =
     ToLower (ReplaceAll (ReplaceAll (ReplaceAll (ReplaceAll s CHR '' '' ''_'')
        CHR ''('' []) CHR '')'' []) CHR ''/'' [])"

text \<open>\<open>strings.Contains\<close>, \<open>strings.HasSuffix\<close>, \<open>strings.Split\<close> with a one-byte
  separator, and \<open>strings.Replace(s, old, new, 1)\<close> (the first occurrence only).\<close>

fun Contains :: "string \<Rightarrow> string \<Rightarrow> bool" where
  "Contains [] sub = (sub = [])"
| "Contains (c # cs) sub = (take (length sub) (c # cs) = sub \<or> Contains cs sub)"

definition HasSuffix :: "string \<Rightarrow> string \<Rightarrow> bool" where
  "HasSuffix s suffix =
     (length suffix \<le> length s \<and> drop (length s - length suffix) s = suffix)"

fun Split :: "string \<Rightarrow> char \<Rightarrow> string list" where
  "Split [] sep = [[]]"
| "Split (c # cs) sep =
     (if c = sep then [] # Split cs sep
      else (case Split cs sep of
              [] \<Rightarrow> [[c]]
            | w # ws \<Rightarrow> (c # w) # ws))"

fun ReplaceFirst :: "string \<Rightarrow> string \<Rightarrow> string \<Rightarrow> string" where
  "ReplaceFirst [] old new = (if old = [] then new else [])"
| "ReplaceFirst (c # cs) old new =
     (if take (length old) (c # cs) = old then new @ drop (length old) (c # cs)
      else c # ReplaceFirst cs old new)"

section \<open>Numbers (float64, int, strconv.Itoa)\<close>

text \<open>
  A float64 is modelled by the number it denotes: a finite value by that rational
  (the two zeros are one value), or one of the three special values. No arithmetic on
  floats is needed, only comparison and conversion.
\<close>

datatype float64 = Finite rat | PosInf | NegInf | NaN

text \<open>
  The conversion \<open>int64(b)\<close> (and \<open>int(b)\<close> on a 64-bit platform) truncates towards
  zero. Where the truncated value does not fit, or for NaN and the infinities, Go leaves
  the result to the implementation; on amd64 it is the smallest int64.
\<close>

definition int64_of_float64 :: "float64 \<Rightarrow> int" where
  "int64_of_float64 b =
     (case b of
        Finite r \<Rightarrow>
          (let t = (if 0 \<le> r then \<lfloor>r\<rfloor> else \<lceil>r\<rceil>)
           in if - (2 ^ 63) \<le> t \<and> t < 2 ^ 63 then t else - (2 ^ 63))
      | _ \<Rightarrow> - (2 ^ 63))"

definition float64_of_int64 :: "int \<Rightarrow> float64" where
  "float64_of_int64 n = Finite (of_int n)"

text \<open>\<open>strconv.Itoa\<close>: the decimal digits, with a minus sign for a negative number.\<close>

fun natstr :: "nat \<Rightarrow> string" where
  "natstr n =
     (if n < 10 then [''0123456789'' ! n]
      else natstr (n div 10) @ [''0123456789'' ! (n mod 10)])"

declare natstr.simps [simp del]

definition Itoa :: "int \<Rightarrow> string" where
  "Itoa i = (if i < 0 then CHR ''-'' # natstr (nat (- i)) else natstr (nat i))"

section \<open>Metric vectors (prometheus.GaugeVec)\<close>

text \<open>
  A GaugeVec has its declared label names and its series: one value per tuple of label
  values, the tuple ordered as the declared names. \<open>Set\<close> on a series overwrites.
  \<open>WithLabelValues\<close> and \<open>With\<close> panic when the values given do not fit the declared
  names (as many values as names; for \<open>With\<close>, a map with exactly the declared names);
  the panic is the result \<open>None\<close>. Label values are taken to be valid UTF-8 (the
  library also panics on one that is not).
\<close>

record GaugeVec =
  labelNames :: "string list"
  series :: "(string list \<times> float64) list"

type_synonym Labels = "(string \<times> string) list"

definition NewGaugeVec :: "string list \<Rightarrow> GaugeVec" where
  "NewGaugeVec names = \<lparr>labelNames = names, series = []\<rparr>"

definition Reset :: "GaugeVec \<Rightarrow> GaugeVec" where
  "Reset v = v\<lparr>series := []\<rparr>"

definition WithLabelValues_Set :: "GaugeVec \<Rightarrow> string list \<Rightarrow> float64 \<Rightarrow> GaugeVec option" where
  "WithLabelValues_Set v lvs x =
     (if length lvs = length (labelNames v)
      then Some (v\<lparr>series := AList.update lvs x (series v)\<rparr>)
      else None)"

definition With_Set :: "GaugeVec \<Rightarrow> Labels \<Rightarrow> float64 \<Rightarrow> GaugeVec option" where
  "With_Set v labels x =
     (if length labels = length (labelNames v)
         \<and> list_all (\<lambda>n. map_of labels n \<noteq> None) (labelNames v)
      then Some (v\<lparr>series :=
             AList.update (map (\<lambda>n. the (map_of labels n)) (labelNames v)) x (series v)\<rparr>)
      else None)"

section \<open>Configuration and database handles\<close>

record Alert =
  File :: string
  Ignoreora :: "string list"

record Query =
  Sql :: string
  Name :: string
  Metrics :: "string list"
  Labels :: "string list"
  Help :: string

text \<open>
  A cell of a scanned row holds a value of one of the dynamic types a driver hands to
  \<open>Scan\<close> into an \<open>interface{}\<close>.
\<close>

datatype cell =
    CString string
  | CFloat64 float64
  | CInt64 int
  | CBool bool
  | CBytes string
  | CTime int
  | CNil

text \<open>
  What \<open>QueryContext\<close> gives: an error, or the column names and the rows the driver
  delivers, in order.
\<close>

datatype query_result = QueryError | Rows "string list" "cell list list"

text \<open>
  An opened \<open>*sql.DB\<close>, by what it answers: whether the ping succeeds, the pair
  (db_unique_name, instance_name) of the identity query if that query and its scan
  succeed, the result of every other query text, and whether the handle was closed.
\<close>

record DB =
  pingOk :: bool
  identity :: "(string \<times> string) option"
  run :: "string \<Rightarrow> query_result"
  closed :: bool

definition QueryContext :: "DB \<Rightarrow> string \<Rightarrow> query_result" where
  "QueryContext h sql = (if closed h then QueryError else run h sql)"

definition Close :: "DB \<Rightarrow> DB" where
  "Close h = h\<lparr>closed := True\<rparr>"

record Config =
  Connection :: string
  Database :: string
  Instance :: string
  Alertlog :: "Alert list"
  Queries :: "Query list"
  db :: "DB option"

record Configs =
  Cfgs :: "Config list"

section \<open>The exporter\<close>

text \<open>
  main.go, type Exporter. The gauges \<open>duration\<close> and \<open>error\<close> and the counter
  \<open>totalScrapes\<close> are single values; \<open>scrapeErrors\<close> is a counter vector, every other
  metric a gauge vector; \<open>custom\<close> maps a query name to its gauge vector (a missing key
  is Go's nil pointer). The request context \<open>gctx\<close> is not part of the model: a query cut
  off by the deadline is a query that returns an error.
\<close>

record Exporter =
  duration :: float64
  error :: float64
  totalScrapes :: float64
  scrapeErrors :: GaugeVec
  session :: GaugeVec
  sysstat :: GaugeVec
  waitclass :: GaugeVec
  sysmetric :: GaugeVec
  interconnect :: GaugeVec
  uptime :: GaugeVec
  up :: GaugeVec
  tablespace :: GaugeVec
  recovery :: GaugeVec
  redo :: GaugeVec
  cache :: GaugeVec
  alertlog :: GaugeVec
  alertdate :: GaugeVec
  services :: GaugeVec
  parameter :: GaugeVec
  asmspace :: GaugeVec
  tablerows :: GaugeVec
  tablebytes :: GaugeVec
  indexbytes :: GaugeVec
  lobbytes :: GaugeVec
  lastIp :: string
  vTabRows :: bool
  vTabBytes :: bool
  vIndBytes :: bool
  vLobBytes :: bool
  vRecovery :: bool
  custom :: "string \<rightharpoonup> GaugeVec"
  used_times :: GaugeVec

text \<open>main.go, addCustomsql: one gauge vector per query name; a later query of the same
  name replaces the earlier vector.\<close>

definition addQuery :: "(string \<Rightarrow> string) \<Rightarrow> Query \<Rightarrow> Exporter \<Rightarrow> Exporter" where
  "addQuery ToLower query e =
     e\<lparr>custom := (custom e)(Name query \<mapsto>
          NewGaugeVec (map (cleanName ToLower) (Labels query)
                        @ [''metric'', ''database'', ''dbinstance'', ''rownum'']))\<rparr>"

definition addCustomsql :: "(string \<Rightarrow> string) \<Rightarrow> Configs \<Rightarrow> Exporter \<Rightarrow> Exporter" where
  "addCustomsql ToLower config e =
     fold (\<lambda>conn. fold (addQuery ToLower) (Queries conn)) (Cfgs config) e"

text \<open>main.go, NewExporter: every vector with its declared label names and no series.\<close>

definition NewExporter :: "(string \<Rightarrow> string) \<Rightarrow> Configs \<Rightarrow> Exporter" where
  "NewExporter ToLower config = addCustomsql ToLower config
     \<lparr>duration = Finite 0, error = Finite 0, totalScrapes = Finite 0,
      scrapeErrors = NewGaugeVec [''collector''],
      session = NewGaugeVec [''database'', ''dbinstance'', ''type'', ''state''],
      sysstat = NewGaugeVec [''database'', ''dbinstance'', ''type''],
      waitclass = NewGaugeVec [''database'', ''dbinstance'', ''type''],
      sysmetric = NewGaugeVec [''database'', ''dbinstance'', ''type''],
      interconnect = NewGaugeVec [''database'', ''dbinstance'', ''type''],
      uptime = NewGaugeVec [''database'', ''dbinstance''],
      up = NewGaugeVec [''database'', ''dbinstance''],
      tablespace = NewGaugeVec
        [''database'', ''dbinstance'', ''type'', ''name'', ''contents'', ''autoextend''],
      recovery = NewGaugeVec [''database'', ''dbinstance'', ''type''],
      redo = NewGaugeVec [''database'', ''dbinstance''],
      cache = NewGaugeVec [''database'', ''dbinstance'', ''type''],
      alertlog = NewGaugeVec
        [''database'', ''dbinstance'', ''code'', ''description'', ''ignore''],
      alertdate = NewGaugeVec [''database'', ''dbinstance''],
      services = NewGaugeVec [''database'', ''dbinstance'', ''name''],
      parameter = NewGaugeVec [''database'', ''dbinstance'', ''name''],
      asmspace = NewGaugeVec [''database'', ''dbinstance'', ''type'', ''name''],
      tablerows = NewGaugeVec
        [''database'', ''dbinstance'', ''owner'', ''table_name'', ''tablespace''],
      tablebytes = NewGaugeVec [''database'', ''dbinstance'', ''owner'', ''table_name''],
      indexbytes = NewGaugeVec [''database'', ''dbinstance'', ''owner'', ''table_name''],
      lobbytes = NewGaugeVec [''database'', ''dbinstance'', ''owner'', ''table_name''],
      lastIp = [], vTabRows = False, vTabBytes = False, vIndBytes = False,
      vLobBytes = False, vRecovery = False,
      custom = Map.empty,
      used_times = NewGaugeVec [''ipport'', ''svname'', ''column'']\<rparr>"

section \<open>The custom query engine (main.go, ScrapeCustomQueries)\<close>

text \<open>
  The inner loop \<open>for i, col := range cols\<close> that looks a configured name up among the
  result columns: the index of the first column whose cleaned name equals the cleaned
  name looked for. \<open>None\<close> is the index -1 of the source.
\<close>

fun findColumn :: "(string \<Rightarrow> string) \<Rightarrow> string \<Rightarrow> string list \<Rightarrow> nat option" where
  "findColumn ToLower name [] = None"
| "findColumn ToLower name (col # cols) =
     (if cleanName ToLower name = cleanName ToLower col then Some 0
      else map_option Suc (findColumn ToLower name cols))"

text \<open>
  The value of one label, from the cell of its column. The first parameter is
  \<open>strconv.FormatFloat(b, 'e', -1, 64)\<close>, a function of the Go library. In the last
  branch the source formats \<open>b\<close>, the variable of the float64 type assertion that has
  just failed: \<open>b\<close> is the zero value 0 there, which \<open>fmt.Sprintf("%v", b)\<close> renders
  as the text 0.
\<close>

definition labelValue :: "(float64 \<Rightarrow> string) \<Rightarrow> cell \<Rightarrow> string" where
  "labelValue FormatFloat_e c =
     (case c of
        CString a \<Rightarrow> a
      | CFloat64 b \<Rightarrow>
          (if b = float64_of_int64 (int64_of_float64 b) then Itoa (int64_of_float64 b)
           else FormatFloat_e b)
      | _ \<Rightarrow> ''0'')"

text \<open>
  The loop over \<open>query.Labels\<close>: \<open>Inr\<close> the labels with every configured label added,
  or \<open>Inl\<close> the first configured label that has no column (the source then warns and
  leaves the loop over the rows, \<open>break QueryLoop\<close>).
\<close>

fun labelLoop ::
  "(string \<Rightarrow> string) \<Rightarrow> (float64 \<Rightarrow> string) \<Rightarrow> string list \<Rightarrow> cell list \<Rightarrow> string list \<Rightarrow> Labels
     \<Rightarrow> string + Labels" where
  "labelLoop ToLower F cols vals [] promLabels = Inr promLabels"
| "labelLoop ToLower F cols vals (label # labels) promLabels =
     (case findColumn ToLower label cols of
        None \<Rightarrow> Inl label
      | Some labelColumnIndex \<Rightarrow>
          labelLoop ToLower F cols vals labels
            (AList.update (cleanName ToLower label) (labelValue F (vals ! labelColumnIndex))
               promLabels))"

text \<open>
  How a loop body ends: it goes on with the next iteration, it leaves the loop over the
  rows of this query, or it panics (the deferred \<open>recover\<close> of ScrapeCustomQueries then
  ends the whole call). Lines written to the log are collected beside the exporter; the
  line of a recovered panic is kept without the panic's own text.
\<close>

datatype ctl = Continue | BreakQueryLoop | Panic

datatype logline = Warn string | Error string

text \<open>One iteration of \<open>MetricLoop\<close>, for one configured metric name on one scanned row.\<close>

definition metricStep ::
  "(string \<Rightarrow> string) \<Rightarrow> (float64 \<Rightarrow> string) \<Rightarrow> Config \<Rightarrow> Query \<Rightarrow> string list \<Rightarrow> cell list \<Rightarrow> int \<Rightarrow> string
     \<Rightarrow> Exporter \<Rightarrow> ctl \<times> Exporter \<times> logline list" where
  "metricStep ToLower F conn query cols vals rownum metric e =
     (case findColumn ToLower metric cols of
        None \<Rightarrow> (Continue, e, [])
      | Some metricColumnIndex \<Rightarrow>
          (case vals ! metricColumnIndex of
             CFloat64 metricValue \<Rightarrow>
               (case labelLoop ToLower F cols vals (Labels query)
                       (AList.update ''rownum'' (Itoa rownum)
                         (AList.update ''metric'' metric
                           (AList.update ''dbinstance'' (Instance conn)
                             (AList.update ''database'' (Database conn) [])))) of
                  Inl label \<Rightarrow>
                    (BreakQueryLoop, e,
                     [Warn ('' '' @ Name query @ '' Label '' @ label @ '' not found'')])
                | Inr promLabels \<Rightarrow>
                    (case custom e (Name query) of
                       None \<Rightarrow> (Panic, e, [])
                     | Some v \<Rightarrow>
                         (case With_Set v promLabels metricValue of
                            None \<Rightarrow> (Panic, e, [])
                          | Some v' \<Rightarrow>
                              (Continue, e\<lparr>custom := (custom e)(Name query \<mapsto> v')\<rparr>, []))))
           | _ \<Rightarrow> (Continue, e, [])))"

fun MetricLoop ::
  "(string \<Rightarrow> string) \<Rightarrow> (float64 \<Rightarrow> string) \<Rightarrow> Config \<Rightarrow> Query \<Rightarrow> string list \<Rightarrow> cell list \<Rightarrow> int
     \<Rightarrow> string list \<Rightarrow> Exporter \<Rightarrow> ctl \<times> Exporter \<times> logline list" where
  "MetricLoop ToLower F conn query cols vals rownum [] e = (Continue, e, [])"
| "MetricLoop ToLower F conn query cols vals rownum (metric # metrics) e =
     (case metricStep ToLower F conn query cols vals rownum metric e of
        (Continue, e', l) \<Rightarrow>
          (case MetricLoop ToLower F conn query cols vals rownum metrics e' of
             (c, e'', l') \<Rightarrow> (c, e'', l @ l'))
      | (c, e', l) \<Rightarrow> (c, e', l))"

text \<open>
  \<open>QueryLoop\<close>, the loop over the rows. \<open>rows.Scan(vals...)\<close> into \<open>len(cols)\<close>
  destinations of type \<open>interface{}\<close> fails exactly when the row has another number of
  values, and the source then leaves the loop (\<open>break\<close>). The result is \<open>Continue\<close>
  when the loop is left in any way but a panic.
\<close>

fun QueryLoop ::
  "(string \<Rightarrow> string) \<Rightarrow> (float64 \<Rightarrow> string) \<Rightarrow> Config \<Rightarrow> Query \<Rightarrow> string list \<Rightarrow> cell list list \<Rightarrow> int
     \<Rightarrow> Exporter \<Rightarrow> ctl \<times> Exporter \<times> logline list" where
  "QueryLoop ToLower F conn query cols [] rownum e = (Continue, e, [])"
| "QueryLoop ToLower F conn query cols (vals # rest) rownum e =
     (if length vals \<noteq> length cols then (Continue, e, [])
      else (case MetricLoop ToLower F conn query cols vals rownum (Metrics query) e of
              (Continue, e', l) \<Rightarrow>
                (case QueryLoop ToLower F conn query cols rest (rownum + 1) e' of
                   (c, e'', l') \<Rightarrow> (c, e'', l @ l'))
            | (BreakQueryLoop, e', l) \<Rightarrow> (Continue, e', l)
            | (Panic, e', l) \<Rightarrow> (Panic, e', l)))"

text \<open>
  The loop \<open>for _, query := range conn.Queries\<close>. A query that fails makes the function
  return; a panic below is recovered by the deferred function, which logs it and lets
  the function return.
\<close>

fun forQueries ::
  "(string \<Rightarrow> string) \<Rightarrow> (float64 \<Rightarrow> string) \<Rightarrow> Config \<Rightarrow> DB \<Rightarrow> Query list \<Rightarrow> Exporter
     \<Rightarrow> Exporter \<times> logline list" where
  "forQueries ToLower F conn h [] e = (e, [])"
| "forQueries ToLower F conn h (query # queries) e =
     (case QueryContext h (Sql query) of
        QueryError \<Rightarrow> (e, [])
      | Rows cols rows \<Rightarrow>
          (case QueryLoop ToLower F conn query cols rows 1 e of
             (Panic, e', l) \<Rightarrow> (e', l @ [Error '' ?''])
           | (_, e', l) \<Rightarrow>
               (case forQueries ToLower F conn h queries e' of
                  (e'', l') \<Rightarrow> (e'', l @ l'))))"

definition ScrapeCustomQueries ::
  "(string \<Rightarrow> string) \<Rightarrow> (float64 \<Rightarrow> string) \<Rightarrow> Exporter \<Rightarrow> Config \<Rightarrow> Exporter \<times> logline list" where
  "ScrapeCustomQueries ToLower F e conn =
     (case db conn of
        None \<Rightarrow> (e, [])
      | Some h \<Rightarrow> forQueries ToLower F conn h (Queries conn) e)"

section \<open>The reset at the start of a scrape (main.go, resetAllMetrics)\<close>

definition resetAllMetrics :: "Exporter \<Rightarrow> Exporter" where
  "resetAllMetrics e =
     e\<lparr>used_times := Reset (used_times e),
       up := Reset (up e),
       session := Reset (session e),
       sysstat := Reset (sysstat e),
       waitclass := Reset (waitclass e),
       sysmetric := Reset (sysmetric e),
       interconnect := Reset (interconnect e),
       tablespace := Reset (tablespace e),
       recovery := Reset (recovery e),
       redo := Reset (redo e),
       cache := Reset (cache e),
       uptime := Reset (uptime e),
       alertlog := Reset (alertlog e),
       alertdate := Reset (alertdate e),
       services := Reset (services e),
       parameter := Reset (parameter e),
       asmspace := Reset (asmspace e),
       tablerows := Reset (tablerows e),
       tablebytes := Reset (tablebytes e),
       indexbytes := Reset (indexbytes e),
       lobbytes := Reset (lobbytes e),
       custom := (\<lambda>name. map_option Reset (custom e name))\<rparr>"

section \<open>Connecting one target (main.go, Connect)\<close>

text \<open>
  \<open>Connect\<close> first calls \<open>resetAllMetrics\<close> and then starts one goroutine per target on a
  copy \<open>conf\<close> of the target's configuration; \<open>connectTarget\<close> is the body of that
  goroutine, and its result the copy it sends on the channel, with the exporter as the
  goroutine leaves it. The first parameter is \<open>sql.Open("oracle", _)\<close>: the handle, or
  \<open>None\<close> for an error. The result \<open>None\<close> is a panic of \<open>WithLabelValues\<close>.
\<close>

definition connectTarget ::
  "(string \<Rightarrow> DB option) \<Rightarrow> Config \<Rightarrow> Exporter \<Rightarrow> (Config \<times> Exporter) option" where
  "connectTarget sqlOpen conf0 e =
     (let conf = conf0\<lparr>db := None\<rparr> in
      if length (Connection conf) > 0 then
        (case sqlOpen (Connection conf) of
           None \<Rightarrow> Some (conf, e)
         | Some h \<Rightarrow>
             if \<not> pingOk h then Some (conf, e)
             else
               (case identity h of
                  Some (dbname, inname) \<Rightarrow>
                    (let conf1 = conf\<lparr>db := Some h\<rparr>;
                         conf2 = (if length (Database conf1) = 0 \<or> length (Instance conf1) = 0
                                  then conf1\<lparr>Database := dbname, Instance := inname\<rparr>
                                  else conf1)
                     in map_option (\<lambda>u. (conf2, e\<lparr>up := u\<rparr>))
                          (WithLabelValues_Set (up e) [Database conf2, Instance conf2]
                             (Finite 1)))
                | None \<Rightarrow>
                    (let conf1 = conf\<lparr>db := Some (Close h)\<rparr>
                     in map_option (\<lambda>u. (conf1, e\<lparr>up := u\<rparr>))
                          (WithLabelValues_Set (up e) [Database conf1, Instance conf1]
                             (Finite 0)))))
      else map_option (\<lambda>u. (conf, e\<lparr>up := u\<rparr>))
             (WithLabelValues_Set (up e) [Database conf, Instance conf] (Finite 0)))"

section \<open>Loading the configuration (loadConfig and the reload route)\<close>

text \<open>
  A call either returns or ends the process: \<open>log.Fatalf\<close> of logrus writes the line
  and calls \<open>os.Exit(1)\<close>, so no statement after it runs.
\<close>

datatype 'a proc = Return 'a | Exit int

record globals =
  config :: Configs
  pwd :: string

text \<open>
  The parameters are what the environment answers: \<open>filepath.Abs\<close> of the program's
  directory, \<open>ioutil.ReadFile\<close> and \<open>yaml.Unmarshal\<close> (\<open>None\<close> is an error), and
  the flag \<open>configFile\<close>. The old connections are closed by a goroutine
  (\<open>CloseConnection\<close>) that touches none of the globals.
\<close>

definition loadConfig ::
  "string option \<Rightarrow> (string \<Rightarrow> string option) \<Rightarrow> (string \<Rightarrow> Configs option) \<Rightarrow> string
     \<Rightarrow> globals \<Rightarrow> (bool \<times> globals) proc" where
  "loadConfig absPath ReadFile Unmarshal configFile g =
     (case absPath of
        None \<Rightarrow> Exit 1
      | Some path \<Rightarrow>
          (case ReadFile configFile of
             None \<Rightarrow> Exit 1
           | Some content \<Rightarrow>
               (case Unmarshal content of
                  None \<Rightarrow> Exit 1
                | Some c \<Rightarrow> Return (True, g\<lparr>pwd := path, config := c\<rparr>))))"

text \<open>The handler of the route /reloadConfig, without the text it answers; its first
  parameter is \<open>strings.ToLower\<close>, which addCustomsql needs.\<close>

definition reloadConfig ::
  "(string \<Rightarrow> string) \<Rightarrow> string option \<Rightarrow> (string \<Rightarrow> string option) \<Rightarrow> (string \<Rightarrow> Configs option) \<Rightarrow> string
     \<Rightarrow> globals \<Rightarrow> Exporter \<Rightarrow> (globals \<times> Exporter) proc" where
  "reloadConfig ToLower absPath ReadFile Unmarshal configFile g exporter =
     (case loadConfig absPath ReadFile Unmarshal configFile g of
        Exit n \<Rightarrow> Exit n
      | Return (reload, g') \<Rightarrow>
          if reload then Return (g', addCustomsql ToLower (config g') exporter)
          else Return (g', exporter))"

section \<open>The timeout routes (main.go, /getTimeout and /setTimeout)\<close>

text \<open>
  The state is the value \<open>*timeout\<close>. \<open>setTimeout\<close> takes what \<open>strconv.Atoi\<close> made of
  the parameter \<open>v\<close> (\<open>Inl\<close> the text of its error) and gives the new value of
  \<open>*timeout\<close> and the text answered.
\<close>

definition getTimeout :: "int \<Rightarrow> string" where
  "getTimeout timeout = ''current timeout='' @ Itoa timeout"

definition setTimeout :: "string + int \<Rightarrow> int \<Rightarrow> int \<times> string" where
  "setTimeout atoi timeout =
     (case atoi of
        Inl err \<Rightarrow> (timeout, ''Err '' @ err)
      | Inr t \<Rightarrow>
          if t \<ge> 15 \<or> t \<le> 1 then (timeout, ''bad timeout, 1<v<15'')
          else (t, ''ok, timeout='' @ Itoa t))"

section \<open>Reading the connection test's output (testconn.go, execConn)\<close>

definition splitConnStr :: "string \<Rightarrow> string \<times> string" where
  "splitConnStr str =
     (let sts = Split str CHR ''@'' in
      if length sts \<ge> 2 then
        (let ips = Split (sts ! 1) CHR ''/'' in
         if length ips \<ge> 2 then
           (let dbs = Split (ips ! 1) CHR ''?'' in
            (ips ! 0, if length dbs \<ge> 1 then dbs ! 0 else ''???''))
         else (''??'', ''???''))
      else (''??'', ''???''))"

text \<open>
  The body of the loop over the lines, on the vector \<open>used_times\<close>. The parameters are
  \<open>strconv.ParseFloat(_, 64)\<close> (\<open>None\<close> is its error) and the division of float64.
  The result \<open>None\<close> is a panic of \<open>WithLabelValues\<close>; nothing in execConn recovers it.
\<close>

definition execConnLine ::
  "(string \<Rightarrow> float64 option) \<Rightarrow> (float64 \<Rightarrow> float64 \<Rightarrow> float64) \<Rightarrow> string \<Rightarrow> GaugeVec
     \<Rightarrow> GaugeVec option" where
  "execConnLine ParseFloat fdiv v used =
     (if Contains v ''query time'' then
        (let fs = Split v CHR '' '' in
         if length fs = 4 then
           (let connstr = fs ! 2;
                (ipport, svname) = splitConnStr connstr;
                ts = fs ! 3
            in if HasSuffix ts ''ms'' then
                 (case ParseFloat (ReplaceFirst ts ''ms'' []) of
                    None \<Rightarrow> WithLabelValues_Set used [ipport, svname] (Finite 999)
                  | Some dr \<Rightarrow>
                      WithLabelValues_Set used [ipport, svname, ''connectsucc'']
                        (fdiv dr (Finite 1000)))
               else
                 (case ParseFloat (ReplaceFirst ts ''s'' []) of
                    None \<Rightarrow> WithLabelValues_Set used [ipport, svname] (Finite 999)
                  | Some dr \<Rightarrow>
                      WithLabelValues_Set used [ipport, svname, ''connectsucc''] dr))
         else Some used)
      else Some used)"

fun execConnLines ::
  "(string \<Rightarrow> float64 option) \<Rightarrow> (float64 \<Rightarrow> float64 \<Rightarrow> float64) \<Rightarrow> string list \<Rightarrow> GaugeVec
     \<Rightarrow> GaugeVec option" where
  "execConnLines ParseFloat fdiv [] used = Some used"
| "execConnLines ParseFloat fdiv (v # strs) used =
     (case execConnLine ParseFloat fdiv v used of
        None \<Rightarrow> None
      | Some used' \<Rightarrow> execConnLines ParseFloat fdiv strs used')"

text \<open>execConn from the point where the test's standard error output \<open>cc\<close> is there.\<close>

definition execConn ::
  "(string \<Rightarrow> float64 option) \<Rightarrow> (float64 \<Rightarrow> float64 \<Rightarrow> float64) \<Rightarrow> string \<Rightarrow> Exporter
     \<Rightarrow> Exporter option" where
  "execConn ParseFloat fdiv cc e =
     map_option (\<lambda>u. e\<lparr>used_times := u\<rparr>)
       (execConnLines ParseFloat fdiv (Split cc (CHR 0x0A)) (used_times e))"

section \<open>Example inputs\<close>

text \<open>
  One target with three custom queries: \<open>q_fail\<close>, whose statement the database
  rejects; \<open>q_label\<close>, which declares a label no column of its result matches; and
  \<open>q_ok\<close>, with two labels that have columns and a metric that has none. \<open>q_types\<close>
  reads label columns that hold an integer and a time.
\<close>

text \<open>
  \<open>strings.ToLower\<close> on ASCII text, which is all the examples hold: the letters A..Z
  become a..z and every other byte stays as it is.
\<close>

definition toLowerChar :: "char \<Rightarrow> char" where
  "toLowerChar c =
     (case map_of (zip ''ABCDEFGHIJKLMNOPQRSTUVWXYZ'' ''abcdefghijklmnopqrstuvwxyz'') c of
        Some d \<Rightarrow> d
      | None \<Rightarrow> c)"

definition ToLower_ascii :: "string \<Rightarrow> string" where
  "ToLower_ascii s = map toLowerChar s"

definition q_fail :: Query where
  "q_fail = \<lparr>Sql = ''select n from no_such_table'', Name = ''q_fail'',
             Metrics = [''n''], Labels = [], Help = []\<rparr>"

definition q_label :: Query where
  "q_label = \<lparr>Sql = ''select a, owner from u'', Name = ''q_label'',
              Metrics = [''a''], Labels = [''missing_col''], Help = []\<rparr>"

definition q_ok :: Query where
  "q_ok = \<lparr>Sql = ''select a, owner, kind from t'', Name = ''q_ok'',
           Metrics = [''a'', ''missing_metric''], Labels = [''owner'', ''kind''], Help = []\<rparr>"

definition q_types :: Query where
  "q_types = \<lparr>Sql = ''select a, owner, kind from v'', Name = ''q_types'',
              Metrics = [''a''], Labels = [''owner'', ''kind''], Help = []\<rparr>"

definition db1 :: DB where
  "db1 = \<lparr>pingOk = True, identity = Some (''orcl'', ''orcl1''),
          run = (\<lambda>sql.
            if sql = ''select a, owner, kind from t''
            then Rows [''A'', ''OWNER'', ''KIND'']
                   [[CFloat64 (Finite 7), CString ''SYS'', CFloat64 (Finite 5)]]
            else if sql = ''select a, owner from u''
            then Rows [''A'', ''OWNER'']
                   [[CFloat64 (Finite 1), CString ''X''], [CFloat64 (Finite 2), CString ''Y'']]
            else if sql = ''select a, owner, kind from v''
            then Rows [''A'', ''OWNER'', ''KIND'']
                   [[CFloat64 (Finite 3), CInt64 42, CTime 1635768000]]
            else QueryError),
          closed = False\<rparr>"

definition target :: "Query list \<Rightarrow> Config" where
  "target qs = \<lparr>Connection = ''scott/tiger@10.0.0.5:1521/orcl'', Database = ''DB'',
                Instance = ''I1'', Alertlog = [], Queries = qs, db = Some db1\<rparr>"

definition exporter0 :: Exporter where
  "exporter0 = NewExporter ToLower_ascii \<lparr>Cfgs = [target [q_fail, q_label, q_ok, q_types]]\<rparr>"

text \<open>The exporter after one scrape has recorded how long a connect took.\<close>

definition timed_exporter :: Exporter where
  "timed_exporter =
     exporter0\<lparr>used_times :=
       \<lparr>labelNames = [''ipport'', ''svname'', ''column''],
        series = [([''10.0.0.5:1521'', ''orcl'', ''connect''], Finite 12)]\<rparr>\<rparr>"

text \<open>A target configured with a database name and no instance name, and the driver
  that opens the example database.\<close>

definition conf_partial :: Config where
  "conf_partial = (target [])\<lparr>Database := ''PROD'', Instance := [], db := None\<rparr>"

definition open1 :: "string \<Rightarrow> DB option" where
  "open1 c = (if c = ''scott/tiger@10.0.0.5:1521/orcl'' then Some db1 else None)"

definition globals0 :: globals where
  "globals0 = \<lparr>config = \<lparr>Cfgs = [target [q_ok]]\<rparr>, pwd = ''/opt/exporter''\<rparr>"

text \<open>\<open>strconv.ParseFloat\<close> on the three texts the examples parse.\<close>

definition ParseFloat_sample :: "string \<Rightarrow> float64 option" where
  "ParseFloat_sample s =
     (if s = ''1.5'' then Some (Finite (3 / 2))
      else if s = ''250'' then Some (Finite 250)
      else None)"

section \<open>Properties\<close>

text \<open>
  In the statements \<open>L\<close> stands for \<open>strings.ToLower\<close> and \<open>F\<close> for
  \<open>strconv.FormatFloat(_, 'e', -1, 64)\<close>: each statement holds for every \<open>L\<close> and
  \<open>F\<close>, so for the functions of the Go library and for names in any script. The
  examples hold ASCII names and are evaluated with \<open>ToLower_ascii\<close>.
\<close>

subsection \<open>Lemmas on the loops of the custom query engine\<close>



lemma labelLoop_missing:
  "l \<in> set labels \<Longrightarrow> findColumn L l cols = None \<Longrightarrow> \<exists>l'. labelLoop L F cols vals labels pl = Inl l'"
proof (induction labels arbitrary: pl)
  case Nil
  then show ?case by simp
next
  case (Cons a labels)
  show ?case
  proof (cases "findColumn L a cols")
    case None
    then show ?thesis by simp
  next
    case (Some i)
    with Cons.prems have "l \<in> set labels" by auto
    from Cons.IH [OF this Cons.prems(2)] Some show ?thesis by simp
  qed
qed

lemma metricStep_missing_label:
  assumes "l \<in> set (Labels query)" and "findColumn L l cols = None"
  shows "\<exists>c lg. metricStep L F conn query cols vals rownum metric e = (c, e, lg) \<and> c \<noteq> Panic"
proof -
  obtain l' where "labelLoop L F cols vals (Labels query)
                       (AList.update ''rownum'' (Itoa rownum)
                         (AList.update ''metric'' metric
                           (AList.update ''dbinstance'' (Instance conn)
                             (AList.update ''database'' (Database conn) [])))) = Inl l'"
    using labelLoop_missing [OF assms] by blast
  then show ?thesis
    by (simp add: metricStep_def split: option.split cell.split)
qed

lemma MetricLoop_missing_label:
  assumes "l \<in> set (Labels query)" and "findColumn L l cols = None"
  shows "\<exists>c lg. MetricLoop L F conn query cols vals rownum metrics e = (c, e, lg) \<and> c \<noteq> Panic"
proof (induction metrics)
  case Nil
  then show ?case by simp
next
  case (Cons m metrics)
  obtain c lg where s: "metricStep L F conn query cols vals rownum m e = (c, e, lg)" "c \<noteq> Panic"
    using metricStep_missing_label [OF assms] by blast
  obtain c' lg' where r: "MetricLoop L F conn query cols vals rownum metrics e = (c', e, lg')" "c' \<noteq> Panic"
    using Cons.IH by blast
  show ?case using s r by (cases c) simp_all
qed

lemma QueryLoop_missing_label:
  assumes "l \<in> set (Labels query)" and "findColumn L l cols = None"
  shows "\<exists>lg. QueryLoop L F conn query cols rows rownum e = (Continue, e, lg)"
proof (induction rows arbitrary: rownum)
  case Nil
  then show ?case by simp
next
  case (Cons vals rest)
  obtain c lg where s: "MetricLoop L F conn query cols vals rownum (Metrics query) e = (c, e, lg)" "c \<noteq> Panic"
    using MetricLoop_missing_label [OF assms] by blast
  obtain lg' where r: "QueryLoop L F conn query cols rest (rownum + 1) e = (Continue, e, lg')"
    using Cons.IH by blast
  show ?case using s r by (cases c) simp_all
qed

lemma metricStep_conn:
  "Database c = Database c' \<Longrightarrow> Instance c = Instance c' \<Longrightarrow>
   metricStep L F c query cols vals rownum metric e = metricStep L F c' query cols vals rownum metric e"
  by (simp add: metricStep_def split: option.split cell.split)

lemma MetricLoop_conn:
  "Database c = Database c' \<Longrightarrow> Instance c = Instance c' \<Longrightarrow>
   MetricLoop L F c query cols vals rownum metrics e = MetricLoop L F c' query cols vals rownum metrics e"
  by (induction metrics arbitrary: e) (simp_all add: metricStep_conn [of c c'] split: prod.split ctl.split)

lemma QueryLoop_conn:
  "Database c = Database c' \<Longrightarrow> Instance c = Instance c' \<Longrightarrow>
   QueryLoop L F c query cols rows rownum e = QueryLoop L F c' query cols rows rownum e"
  by (induction rows arbitrary: rownum e) (simp_all add: MetricLoop_conn [of c c'] split: prod.split ctl.split)

lemma forQueries_conn:
  "Database c = Database c' \<Longrightarrow> Instance c = Instance c' \<Longrightarrow>
   forQueries L F c h queries e = forQueries L F c' h queries e"
  by (induction queries arbitrary: e) (simp_all add: QueryLoop_conn [of c c'] split: prod.split ctl.split query_result.split)

lemma forQueries_error_stops:
  "QueryContext h (Sql q) = QueryError \<Longrightarrow>
   forQueries L F conn h (qs1 @ q # qs2) e = forQueries L F conn h qs1 e"
proof (induction qs1 arbitrary: e)
  case Nil
  then show ?case by simp
next
  case (Cons a qs1)
  then show ?case
    by (simp split: query_result.split prod.split ctl.split)
qed

lemma forQueries_label_skip:
  assumes "QueryContext h (Sql q) = Rows cols rows" and "l \<in> set (Labels q)"
    and "findColumn L l cols = None"
  shows "fst (forQueries L F conn h (qs1 @ q # qs2) e) = fst (forQueries L F conn h (qs1 @ qs2) e)"
proof (induction qs1 arbitrary: e)
  case Nil
  obtain lg where "QueryLoop L F conn q cols rows 1 e = (Continue, e, lg)"
    using QueryLoop_missing_label [OF assms(2,3)] by blast
  then show ?case using assms(1) by (simp split: prod.split)
next
  case (Cons a qs1)
  show ?case
  proof (cases "QueryContext h (Sql a)")
    case QueryError
    then show ?thesis by simp
  next
    case (Rows cs rs)
    obtain c e' lg where r: "QueryLoop L F conn a cs rs 1 e = (c, e', lg)"
      by (metis prod_cases3)
    show ?thesis using Rows r Cons.IH [of e']
      by (cases c) (simp_all add: case_prod_beta)
  qed
qed


subsection \<open>A query that fails\<close>

text \<open>
  C1. When the statement of a custom query fails, no series is written for it, but
  ScrapeCustomQueries returns at once: the exporter and the log are what the queries
  declared before the failing one left, and no query declared after it is executed.
  (The claim says the remaining queries are still executed; the source returns where
  it would have to go on with the next query.)
\<close>

theorem query_error_ends_custom_scrape:
  assumes "db conn = Some h" and "Queries conn = qs1 @ q # qs2"
    and "QueryContext h (Sql q) = QueryError"
  shows "ScrapeCustomQueries L F e conn = ScrapeCustomQueries L F e (conn\<lparr>Queries := qs1\<rparr>)"
  using assms forQueries_error_stops [OF assms(3), of L F conn qs1 qs2 e]
    forQueries_conn [of conn "conn\<lparr>Queries := qs1\<rparr>" L F h qs1 e]
  by (simp add: ScrapeCustomQueries_def)

theorem query_error_ends_custom_scrape_witness:
  "\<forall>F. ScrapeCustomQueries ToLower_ascii F exporter0 (target [q_fail, q_ok]) = (exporter0, [])
     \<and> map_option series (custom (fst (ScrapeCustomQueries ToLower_ascii F exporter0 (target [q_ok]))) ''q_ok'')
         = Some [([''SYS'', ''5'', ''a'', ''DB'', ''I1'', ''1''], Finite 7)]"
proof (intro allI conjI)
  fix F
  have h1: "db (target [q_fail, q_ok]) = Some db1"
    by (simp add: target_def)
  have h2: "Queries (target [q_fail, q_ok]) = [] @ q_fail # [q_ok]"
    by (simp add: target_def)
  have h3: "QueryContext db1 (Sql q_fail) = QueryError"
    by (simp add: QueryContext_def db1_def q_fail_def)
  show "ScrapeCustomQueries ToLower_ascii F exporter0 (target [q_fail, q_ok]) = (exporter0, [])"
    using query_error_ends_custom_scrape [OF h1 h2 h3, of ToLower_ascii F exporter0]
    by (simp add: ScrapeCustomQueries_def target_def)
  show "map_option series
          (custom (fst (ScrapeCustomQueries ToLower_ascii F exporter0 (target [q_ok]))) ''q_ok'')
        = Some [([''SYS'', ''5'', ''a'', ''DB'', ''I1'', ''1''], Finite 7)]"
    by code_simp
qed

subsection \<open>A label without a column\<close>

text \<open>
  C2. When a custom query declares a label that no column of its result matches (the
  cleaned names compared, whatever \<open>strings.ToLower\<close> does to them), its
  rows leave the exporter as it was, however many rows there are (no series of this
  query is written, also none from a row or metric handled before the label was looked
  up), and the scrape of the target ends with the same exporter as if the query had not
  been declared: the other queries of the target write their series as they would
  without it.
\<close>

theorem missing_label_emits_nothing:
  assumes "db conn = Some h" and "Queries conn = qs1 @ q # qs2"
    and "QueryContext h (Sql q) = Rows cols rows"
    and "l \<in> set (Labels q)" and "findColumn L l cols = None"
  shows "(\<exists>lg. QueryLoop L F conn q cols rows 1 e = (Continue, e, lg)) \<and>
         fst (ScrapeCustomQueries L F e conn)
           = fst (ScrapeCustomQueries L F e (conn\<lparr>Queries := qs1 @ qs2\<rparr>))"
  using assms QueryLoop_missing_label [OF assms(4,5), of F conn rows 1 e]
    forQueries_label_skip [OF assms(3,4,5), of F conn qs1 qs2 e]
    forQueries_conn [of conn "conn\<lparr>Queries := qs1 @ qs2\<rparr>" L F h "qs1 @ qs2" e]
  by (simp add: ScrapeCustomQueries_def)

theorem missing_label_emits_nothing_witness:
  "\<forall>F. fst (ScrapeCustomQueries ToLower_ascii F exporter0 (target [q_label, q_ok]))
          = fst (ScrapeCustomQueries ToLower_ascii F exporter0 (target [q_ok]))
     \<and> map_option series
          (custom (fst (ScrapeCustomQueries ToLower_ascii F exporter0 (target [q_label, q_ok]))) ''q_label'')
         = Some []
     \<and> map_option series
          (custom (fst (ScrapeCustomQueries ToLower_ascii F exporter0 (target [q_label, q_ok]))) ''q_ok'')
         = Some [([''SYS'', ''5'', ''a'', ''DB'', ''I1'', ''1''], Finite 7)]"
proof (intro allI conjI)
  fix F
  have h1: "db (target [q_label, q_ok]) = Some db1"
    by (simp add: target_def)
  have h2: "Queries (target [q_label, q_ok]) = [] @ q_label # [q_ok]"
    by (simp add: target_def)
  have h3: "QueryContext db1 (Sql q_label)
            = Rows [''A'', ''OWNER'']
                [[CFloat64 (Finite 1), CString ''X''], [CFloat64 (Finite 2), CString ''Y'']]"
    by (simp add: QueryContext_def db1_def q_label_def)
  have h4: "''missing_col'' \<in> set (Labels q_label)"
    by (simp add: q_label_def)
  have h5: "findColumn ToLower_ascii ''missing_col'' [''A'', ''OWNER''] = None"
    by (simp add: cleanName_def ToLower_ascii_def ReplaceAll_def toLowerChar_def)
  have "(target [q_label, q_ok])\<lparr>Queries := [] @ [q_ok]\<rparr> = target [q_ok]"
    by (simp add: target_def)
  with missing_label_emits_nothing [OF h1 h2 h3 h4 h5, of F exporter0]
  show "fst (ScrapeCustomQueries ToLower_ascii F exporter0 (target [q_label, q_ok]))
          = fst (ScrapeCustomQueries ToLower_ascii F exporter0 (target [q_ok]))"
    by simp
  show "map_option series
          (custom (fst (ScrapeCustomQueries ToLower_ascii F exporter0 (target [q_label, q_ok]))) ''q_label'')
        = Some []"
    by code_simp
  show "map_option series
          (custom (fst (ScrapeCustomQueries ToLower_ascii F exporter0 (target [q_label, q_ok]))) ''q_ok'')
        = Some [([''SYS'', ''5'', ''a'', ''DB'', ''I1'', ''1''], Finite 7)]"
    by code_simp
qed

subsection \<open>A metric without a column\<close>

text \<open>
  C3. On every row, a configured metric that no column matches (the cleaned names
  compared, whatever \<open>strings.ToLower\<close> does to them) is passed over and
  nothing else: the loop over the metrics does on the row what it does with the
  unmatched metrics left out of the list. For the query with the metrics a and
  missing_metric, both labels present and one row with a = 7, the scrape writes exactly
  one series, of metric a with the value 7.
\<close>

theorem missing_metric_skipped:
  "MetricLoop L F conn query cols vals rownum metrics e
     = MetricLoop L F conn query cols vals rownum
         (filter (\<lambda>m. findColumn L m cols \<noteq> None) metrics) e
   \<and> map_option series (custom (fst (ScrapeCustomQueries ToLower_ascii F exporter0 (target [q_ok]))) ''q_ok'')
       = Some [([''SYS'', ''5'', ''a'', ''DB'', ''I1'', ''1''], Finite 7)]"
proof
  show "MetricLoop L F conn query cols vals rownum metrics e
          = MetricLoop L F conn query cols vals rownum
              (filter (\<lambda>m. findColumn L m cols \<noteq> None) metrics) e"
  proof (induction metrics arbitrary: e)
    case Nil
    then show ?case by simp
  next
    case (Cons m metrics)
    show ?case
    proof (cases "findColumn L m cols")
      case None
      then have "metricStep L F conn query cols vals rownum m e = (Continue, e, [])"
        by (simp add: metricStep_def)
      then show ?thesis using None Cons.IH [of e] by (simp split: prod.split)
    next
      case (Some i)
      then show ?thesis using Cons.IH by (simp split: prod.split ctl.split)
    qed
  qed
  show "map_option series
          (custom (fst (ScrapeCustomQueries ToLower_ascii F exporter0 (target [q_ok]))) ''q_ok'')
        = Some [([''SYS'', ''5'', ''a'', ''DB'', ''I1'', ''1''], Finite 7)]"
    by code_simp
qed

theorem missing_metric_skipped_witness:
  "\<forall>F. MetricLoop ToLower_ascii F (target [q_ok]) q_ok [''A'', ''OWNER'', ''KIND'']
          [CFloat64 (Finite 7), CString ''SYS'', CFloat64 (Finite 5)] 1
          [''a'', ''missing_metric''] exporter0
        = MetricLoop ToLower_ascii F (target [q_ok]) q_ok [''A'', ''OWNER'', ''KIND'']
            [CFloat64 (Finite 7), CString ''SYS'', CFloat64 (Finite 5)] 1
            [''a''] exporter0"
proof
  fix F
  have "filter (\<lambda>m. findColumn ToLower_ascii m [''A'', ''OWNER'', ''KIND''] \<noteq> None)
          [''a'', ''missing_metric''] = [''a'']"
    by (simp add: cleanName_def ToLower_ascii_def ReplaceAll_def toLowerChar_def)
  with missing_metric_skipped [of ToLower_ascii F "target [q_ok]" q_ok "[''A'', ''OWNER'', ''KIND'']"
      "[CFloat64 (Finite 7), CString ''SYS'', CFloat64 (Finite 5)]" 1
      "[''a'', ''missing_metric'']" exporter0]
  show "MetricLoop ToLower_ascii F (target [q_ok]) q_ok [''A'', ''OWNER'', ''KIND'']
          [CFloat64 (Finite 7), CString ''SYS'', CFloat64 (Finite 5)] 1
          [''a'', ''missing_metric''] exporter0
        = MetricLoop ToLower_ascii F (target [q_ok]) q_ok [''A'', ''OWNER'', ''KIND'']
            [CFloat64 (Finite 7), CString ''SYS'', CFloat64 (Finite 5)] 1
            [''a''] exporter0"
    by simp
qed

subsection \<open>The value of a label\<close>

lemma labelValue_string: "labelValue F (CString a) = a"
  by (simp add: labelValue_def)

lemma labelValue_integral: "labelValue F (CFloat64 (Finite 5)) = ''5''"
  by code_simp

lemma labelValue_fraction: "labelValue F (CFloat64 (Finite (21 / 4))) = F (Finite (21 / 4))"
  by code_simp

text \<open>
  The float64 branch in full: an integral value that an int64 holds is rendered by its
  decimal digits; an integral value from 2^63 on and every value with a fraction goes
  to \<open>FormatFloat\<close>.
\<close>

lemma int64_of_float64_of_int:
  "int64_of_float64 (Finite (of_int n)) = (if - (2 ^ 63) \<le> n \<and> n < 2 ^ 63 then n else - (2 ^ 63))"
  by (simp add: int64_of_float64_def)

lemma labelValue_float64_integral:
  "- (2 ^ 63) \<le> n \<Longrightarrow> n < 2 ^ 63 \<Longrightarrow> labelValue F (CFloat64 (Finite (of_int n))) = Itoa n"
  by (simp add: labelValue_def int64_of_float64_of_int float64_of_int64_def)

lemma labelValue_float64_large:
  "2 ^ 63 \<le> n \<Longrightarrow> labelValue F (CFloat64 (Finite (of_int n))) = F (Finite (of_int n))"
  by (simp add: labelValue_def int64_of_float64_of_int float64_of_int64_def)

lemma labelValue_float64_fraction:
  "r \<notin> \<int> \<Longrightarrow> labelValue F (CFloat64 (Finite r)) = F (Finite r)"
proof -
  assume "r \<notin> \<int>"
  then have "r \<noteq> of_int k" for k
    by auto
  then show ?thesis
    by (simp add: labelValue_def float64_of_int64_def)
qed

text \<open>
  C4. A label cell that holds neither a string nor a float64 is rendered as the text 0,
  whatever its value: the fallback formats the zero left by the failed type assertion,
  not the cell. A row whose label columns hold the integer 42 and a time gives a series
  with the label values 0 and 0. (The claim says the cell's value is converted.)
\<close>

theorem label_fallback_renders_zero:
  "labelValue F (CInt64 n) = ''0'' \<and> labelValue F (CBool b) = ''0''
   \<and> labelValue F (CBytes s) = ''0'' \<and> labelValue F (CTime t) = ''0''
   \<and> labelValue F CNil = ''0''
   \<and> map_option series
         (custom (fst (ScrapeCustomQueries ToLower_ascii F exporter0 (target [q_types]))) ''q_types'')
       = Some [([''0'', ''0'', ''a'', ''DB'', ''I1'', ''1''], Finite 3)]"
proof (intro conjI)
  show "map_option series
          (custom (fst (ScrapeCustomQueries ToLower_ascii F exporter0 (target [q_types]))) ''q_types'')
        = Some [([''0'', ''0'', ''a'', ''DB'', ''I1'', ''1''], Finite 3)]"
    by code_simp
qed (simp_all add: labelValue_def)

subsection \<open>The reset\<close>

text \<open>
  C5, the claim as written fails: the timing of a phase recorded in \<open>used_times\<close> is
  cleared by the reset.
\<close>

theorem reset_clears_used_times:
  "series (used_times timed_exporter)
     = [([''10.0.0.5:1521'', ''orcl'', ''connect''], Finite 12)]
   \<and> series (used_times (resetAllMetrics timed_exporter)) = []"
  by (simp add: timed_exporter_def resetAllMetrics_def Reset_def)

text \<open>
  C5, amended. The reset empties every gauge vector of the exporter: the built-in
  families, every custom family and the per-phase timings \<open>used_times\<close>; it keeps
  the declared label names and the set of custom families. It leaves the total scrape
  count, the last-scrape error flag, the last scrape's duration and the scrape-error
  counters as they are.
\<close>

theorem resetAllMetrics_frame:
  "series (used_times (resetAllMetrics e)) = [] \<and> series (up (resetAllMetrics e)) = []
   \<and> series (session (resetAllMetrics e)) = [] \<and> series (sysstat (resetAllMetrics e)) = []
   \<and> series (waitclass (resetAllMetrics e)) = [] \<and> series (sysmetric (resetAllMetrics e)) = []
   \<and> series (interconnect (resetAllMetrics e)) = []
   \<and> series (tablespace (resetAllMetrics e)) = []
   \<and> series (recovery (resetAllMetrics e)) = [] \<and> series (redo (resetAllMetrics e)) = []
   \<and> series (cache (resetAllMetrics e)) = [] \<and> series (uptime (resetAllMetrics e)) = []
   \<and> series (alertlog (resetAllMetrics e)) = [] \<and> series (alertdate (resetAllMetrics e)) = []
   \<and> series (services (resetAllMetrics e)) = [] \<and> series (parameter (resetAllMetrics e)) = []
   \<and> series (asmspace (resetAllMetrics e)) = [] \<and> series (tablerows (resetAllMetrics e)) = []
   \<and> series (tablebytes (resetAllMetrics e)) = []
   \<and> series (indexbytes (resetAllMetrics e)) = []
   \<and> series (lobbytes (resetAllMetrics e)) = []
   \<and> custom (resetAllMetrics e) name
       = map_option (\<lambda>v. \<lparr>labelNames = labelNames v, series = []\<rparr>) (custom e name)
   \<and> totalScrapes (resetAllMetrics e) = totalScrapes e
   \<and> error (resetAllMetrics e) = error e
   \<and> duration (resetAllMetrics e) = duration e
   \<and> scrapeErrors (resetAllMetrics e) = scrapeErrors e"
proof -
  have R: "Reset = (\<lambda>v. \<lparr>labelNames = labelNames v, series = []\<rparr>)"
    by (rule ext) (simp add: Reset_def)
  show ?thesis
    by (simp add: resetAllMetrics_def R)
qed

subsection \<open>Connecting\<close>

text \<open>
  C9, the claim as written fails: a target configured with the database name PROD and
  no instance name comes out of the connect with the discovered database name.
\<close>

theorem connect_overwrites_configured_database:
  "Database conf_partial = ''PROD'' \<and> Instance conf_partial = []
   \<and> map_option (\<lambda>r. (Database (fst r), Instance (fst r)))
        (connectTarget open1 conf_partial exporter0) = Some (''orcl'', ''orcl1'')"
  by code_simp

text \<open>
  C9, amended. For a target that connects and answers the ping, the two display fields
  are replaced together, by the pair the identity query discovers, exactly when at
  least one of them is empty; a target whose two display fields are both configured
  keeps both, and so does every target whose identity query fails.
\<close>

theorem connect_discovery_both_or_none:
  assumes "Connection conf \<noteq> []" and "sqlOpen (Connection conf) = Some h"
    and "pingOk h" and "length (labelNames (up e)) = 2"
  shows "\<exists>conf' e'. connectTarget sqlOpen conf e = Some (conf', e')
           \<and> (Database conf', Instance conf')
               = (case identity h of
                    Some (dbname, inname) \<Rightarrow>
                      if Database conf = [] \<or> Instance conf = [] then (dbname, inname)
                      else (Database conf, Instance conf)
                  | None \<Rightarrow> (Database conf, Instance conf))"
  using assms
  by (auto simp add: connectTarget_def WithLabelValues_Set_def Let_def split: option.split)

theorem connect_discovery_both_or_none_witness:
  "(\<exists>conf' e'. connectTarget open1 (target []) exporter0 = Some (conf', e')
       \<and> (Database conf', Instance conf') = (''DB'', ''I1''))
   \<and> (\<exists>conf' e'. connectTarget open1 conf_partial exporter0 = Some (conf', e')
       \<and> (Database conf', Instance conf') = (''orcl'', ''orcl1''))"
proof -
  have u: "length (labelNames (up exporter0)) = 2"
    by code_simp
  have p: "pingOk db1" and i: "identity db1 = Some (''orcl'', ''orcl1'')"
    by (simp_all add: db1_def)
  have c1: "Connection (target []) \<noteq> []" and o1: "open1 (Connection (target [])) = Some db1"
    by (simp_all add: target_def open1_def)
  have c2: "Connection conf_partial \<noteq> []"
    and o2: "open1 (Connection conf_partial) = Some db1"
    by (simp_all add: conf_partial_def target_def open1_def)
  show ?thesis
    using connect_discovery_both_or_none [where sqlOpen = open1, OF c1 o1 p u]
      connect_discovery_both_or_none [where sqlOpen = open1, OF c2 o2 p u]
    by (simp add: i target_def conf_partial_def)
qed

subsection \<open>Loading the configuration\<close>

text \<open>
  C6. When the configuration file cannot be read or does not parse, loadConfig ends the
  process with exit status 1 (\<open>log.Fatalf\<close>), and so does the reload route that called
  it: loadConfig does not return false. (The claim says the failure is reported by the
  result false and the process goes on; the \<open>return false\<close> after each
  \<open>log.Fatalf\<close> is never reached.)
\<close>

theorem loadConfig_failure_exits:
  assumes "ReadFile configFile = None
           \<or> (\<exists>content. ReadFile configFile = Some content \<and> Unmarshal content = None)"
  shows "loadConfig absPath ReadFile Unmarshal configFile g = Exit 1
         \<and> reloadConfig L absPath ReadFile Unmarshal configFile g exporter = Exit 1"
  using assms
  by (auto simp add: loadConfig_def reloadConfig_def split: option.split)

theorem loadConfig_failure_exits_witness:
  "loadConfig (Some ''/opt/exporter'') (\<lambda>f. None) (\<lambda>c. None) ''oracle.conf'' globals0 = Exit 1
   \<and> reloadConfig ToLower_ascii (Some ''/opt/exporter'') (\<lambda>f. if f = ''oracle.conf'' then Some ''connections: ['' else None)
        (\<lambda>c. None) ''oracle.conf'' globals0 exporter0 = Exit 1"
  using loadConfig_failure_exits [of "\<lambda>f. None" "''oracle.conf''" "\<lambda>c. None"
      "Some ''/opt/exporter''" globals0 ToLower_ascii exporter0]
    loadConfig_failure_exits [of "\<lambda>f. if f = ''oracle.conf'' then Some ''connections: ['' else None"
      "''oracle.conf''" "\<lambda>c. None" "Some ''/opt/exporter''" globals0 ToLower_ascii exporter0]
  by simp

subsection \<open>The timeout\<close>

text \<open>\<open>strconv.Itoa\<close> gives different numbers different texts.\<close>

lemma digit_inj:
  "a < 10 \<Longrightarrow> b < 10 \<Longrightarrow> ''0123456789'' ! a = ''0123456789'' ! b \<Longrightarrow> a = b"
proof -
  assume "a < 10" "b < 10" "''0123456789'' ! a = ''0123456789'' ! b"
  moreover have "distinct ''0123456789''" by simp
  ultimately show "a = b"
    by (simp add: nth_eq_iff_index_eq)
qed

lemma digit_not_minus: "d < 10 \<Longrightarrow> ''0123456789'' ! d \<noteq> CHR ''-''"
proof -
  assume "d < 10"
  then have "''0123456789'' ! d \<in> set ''0123456789''"
    by (intro nth_mem) simp
  then show ?thesis by auto
qed

lemma natstr_nonempty: "natstr n \<noteq> []"
  by (subst natstr.simps) simp

lemma natstr_hd: "hd (natstr n) \<noteq> CHR ''-''"
proof (induction n rule: natstr.induct)
  case (1 n)
  show ?case
  proof (cases "n < 10")
    case True
    then show ?thesis
      by (subst natstr.simps) (simp add: digit_not_minus)
  next
    case False
    with 1 have "hd (natstr (n div 10)) \<noteq> CHR ''-''" by simp
    with False show ?thesis
      by (subst natstr.simps) (simp add: natstr_nonempty)
  qed
qed

lemma natstr_inj: "natstr n = natstr m \<Longrightarrow> n = m"
proof (induction n arbitrary: m rule: natstr.induct)
  case (1 n)
  show ?case
  proof (cases "n < 10")
    case n: True
    show ?thesis
    proof (cases "m < 10")
      case True
      with n 1 show ?thesis
        by (simp add: natstr.simps [of n] natstr.simps [of m] digit_inj)
    next
      case False
      with n 1 show ?thesis
        by (simp add: natstr.simps [of n] natstr.simps [of m] natstr_nonempty natstr_nonempty [symmetric])
    qed
  next
    case n: False
    show ?thesis
    proof (cases "m < 10")
      case True
      with n 1 show ?thesis
        by (simp add: natstr.simps [of n] natstr.simps [of m] natstr_nonempty natstr_nonempty [symmetric])
    next
      case False
      with n "1.prems" have e: "natstr (n div 10) = natstr (m div 10)"
        and d: "''0123456789'' ! (n mod 10) = ''0123456789'' ! (m mod 10)"
        by (simp_all add: natstr.simps [of n] natstr.simps [of m])
      from "1.IH" [OF n e] have "n div 10 = m div 10" .
      moreover from d have "n mod 10 = m mod 10"
        by (intro digit_inj) simp_all
      ultimately show ?thesis
        by (metis div_mult_mod_eq)
    qed
  qed
qed

lemma Itoa_inj: "Itoa a = Itoa b \<Longrightarrow> a = b"
proof -
  assume h: "Itoa a = Itoa b"
  have neg: "hd (CHR ''-'' # natstr k) = CHR ''-''" for k by simp
  show "a = b"
  proof (cases "a < 0")
    case a: True
    show ?thesis
    proof (cases "b < 0")
      case True
      with a h have "natstr (nat (- a)) = natstr (nat (- b))"
        by (simp add: Itoa_def)
      then have "nat (- a) = nat (- b)" by (rule natstr_inj)
      with a True show ?thesis by simp
    next
      case False
      with a h have "CHR ''-'' # natstr (nat (- a)) = natstr (nat b)"
        by (simp add: Itoa_def)
      then have "hd (natstr (nat b)) = CHR ''-''" by (metis list.sel(1))
      then show ?thesis using natstr_hd by blast
    qed
  next
    case a: False
    show ?thesis
    proof (cases "b < 0")
      case True
      with a h have "natstr (nat a) = CHR ''-'' # natstr (nat (- b))"
        by (simp add: Itoa_def)
      then have "hd (natstr (nat a)) = CHR ''-''" by simp
      then show ?thesis using natstr_hd by blast
    next
      case False
      with a h have "natstr (nat a) = natstr (nat b)"
        by (simp add: Itoa_def)
      then have "nat a = nat b" by (rule natstr_inj)
      with a False show ?thesis by simp
    qed
  qed
qed

text \<open>
  C7. /getTimeout answers the stored timeout: the decimal text of the stored value
  after a fixed prefix, a different text for every value. /setTimeout with an integer
  t that is at most 1 or at least 15 answers that the value is bad and leaves the
  stored timeout as it is; with 1 < t < 15 it stores t.
\<close>

theorem setTimeout_bounds:
  "(t \<le> 1 \<or> 15 \<le> t \<longrightarrow> setTimeout (Inr t) timeout = (timeout, ''bad timeout, 1<v<15''))
   \<and> (1 < t \<and> t < 15 \<longrightarrow> fst (setTimeout (Inr t) timeout) = t)
   \<and> getTimeout timeout = ''current timeout='' @ Itoa timeout
   \<and> (getTimeout timeout = getTimeout timeout' \<longrightarrow> timeout = timeout')"
  by (auto simp add: setTimeout_def getTimeout_def dest: Itoa_inj)

theorem setTimeout_bounds_witness:
  "fst (setTimeout (Inr 15) 5) = 5 \<and> fst (setTimeout (Inr 1) 5) = 5
   \<and> fst (setTimeout (Inr (- 3)) 5) = 5
   \<and> fst (setTimeout (Inr 14) 5) = 14 \<and> fst (setTimeout (Inr 2) 5) = 2
   \<and> getTimeout (fst (setTimeout (Inr 10) 5)) = ''current timeout=10''"
proof -
  have "Itoa 10 = ''10''"
    by code_simp
  then show ?thesis
    using setTimeout_bounds [of 15 5] setTimeout_bounds [of 1 5] setTimeout_bounds [of "- 3" 5]
      setTimeout_bounds [of 14 5] setTimeout_bounds [of 2 5] setTimeout_bounds [of 10 5]
      setTimeout_bounds [of 0 10]
    by simp
qed

subsection \<open>The output of the connection test\<close>

lemma execConnLine_no_marker:
  "\<not> Contains v ''query time'' \<Longrightarrow> execConnLine ParseFloat fdiv v used = Some used"
  by (simp add: execConnLine_def)

text \<open>
  C8. On a line with the marker and four fields whose elapsed time does not parse, the
  call that should record 999 gives \<open>WithLabelValues\<close> two label values for the three
  labels of \<open>used_times\<close>: it panics, nothing is recorded, and the lines after it are
  not read. (The claim says 999 is recorded and the parse goes on.)
\<close>

theorem execConn_malformed_time_panics:
  assumes "Contains v ''query time''" and "Split v CHR '' '' = [f0, f1, connstr, ts]"
    and "ParseFloat (if HasSuffix ts ''ms'' then ReplaceFirst ts ''ms'' []
                     else ReplaceFirst ts ''s'' []) = None"
    and "length (labelNames used) = 3"
  shows "execConnLine ParseFloat fdiv v used = None
         \<and> execConnLines ParseFloat fdiv (v # strs) used = None"
  using assms
  by (simp add: execConnLine_def WithLabelValues_Set_def Let_def split: prod.split if_splits)

theorem execConn_malformed_time_panics_witness:
  "\<forall>fdiv. execConnLines ParseFloat_sample fdiv
      [''query time scott/tiger@10.0.0.5:1521/orcl 1m2.5s'',
       ''query time scott/tiger@10.0.0.6:1521/orcl 1.5s''] (used_times exporter0) = None
    \<and> map_option series (execConnLines ParseFloat_sample fdiv
         [''query time scott/tiger@10.0.0.6:1521/orcl 1.5s''] (used_times exporter0))
       = Some [([''10.0.0.6:1521'', ''orcl'', ''connectsucc''], Finite (3 / 2))]"
proof (intro allI conjI)
  fix fdiv
  have h1: "Contains ''query time scott/tiger@10.0.0.5:1521/orcl 1m2.5s'' ''query time''"
    by simp
  have h2: "Split ''query time scott/tiger@10.0.0.5:1521/orcl 1m2.5s'' CHR '' ''
            = [''query'', ''time'', ''scott/tiger@10.0.0.5:1521/orcl'', ''1m2.5s'']"
    by simp
  have h3: "ParseFloat_sample (if HasSuffix ''1m2.5s'' ''ms'' then ReplaceFirst ''1m2.5s'' ''ms'' []
                               else ReplaceFirst ''1m2.5s'' ''s'' []) = None"
    by (simp add: ParseFloat_sample_def HasSuffix_def)
  have h5: "length (labelNames (used_times exporter0)) = 3"
    by code_simp
  show "execConnLines ParseFloat_sample fdiv
      [''query time scott/tiger@10.0.0.5:1521/orcl 1m2.5s'',
       ''query time scott/tiger@10.0.0.6:1521/orcl 1.5s''] (used_times exporter0) = None"
    using execConn_malformed_time_panics [where ParseFloat = ParseFloat_sample, OF h1 h2 h3 h5]
    by simp
  show "map_option series (execConnLines ParseFloat_sample fdiv
         [''query time scott/tiger@10.0.0.6:1521/orcl 1.5s''] (used_times exporter0))
       = Some [([''10.0.0.6:1521'', ''orcl'', ''connectsucc''], Finite (3 / 2))]"
    by code_simp
qed

subsection \<open>A metric cell that is not a float64\<close>

text \<open>
  C10. For a row and a configured metric that has a column (the first one whose cleaned
  name equals the metric's, whatever \<open>strings.ToLower\<close> does), when the cell of that
  column does not hold a float64 (a string, an integer, nil, ...), the step writes no
  series, logs nothing and goes on with the next metric: the exporter is unchanged.
  So a series is written for a row and a metric only when the cell holds a float64.
\<close>

theorem metric_emitted_only_for_float64:
  assumes "findColumn L metric cols = Some i" and "\<forall>x. vals ! i \<noteq> CFloat64 x"
  shows "metricStep L F conn query cols vals rownum metric e = (Continue, e, [])"
  using assms by (simp add: metricStep_def split: cell.split)

theorem metric_emitted_only_for_float64_witness:
  "\<forall>F. metricStep ToLower_ascii F (target [q_ok]) q_ok [''OWNER'', ''A''] [CString ''SYS'', CInt64 8] 1 ''a''
          exporter0 = (Continue, exporter0, [])
     \<and> metricStep ToLower_ascii F (target [q_ok]) q_ok [''OWNER'', ''A''] [CString ''SYS'', CNil] 1 ''a''
          exporter0 = (Continue, exporter0, [])
     \<and> metricStep ToLower_ascii F (target [q_ok]) q_ok [''OWNER'', ''A''] [CString ''SYS'', CString ''8''] 1 ''a''
          exporter0 = (Continue, exporter0, [])"
proof (intro allI conjI)
  fix F
  have c: "findColumn ToLower_ascii ''a'' [''OWNER'', ''A''] = Some 1"
    by (simp add: cleanName_def ToLower_ascii_def ReplaceAll_def toLowerChar_def)
  show "metricStep ToLower_ascii F (target [q_ok]) q_ok [''OWNER'', ''A''] [CString ''SYS'', CInt64 8] 1 ''a''
          exporter0 = (Continue, exporter0, [])"
    using metric_emitted_only_for_float64 [OF c, of "[CString ''SYS'', CInt64 8]"] by simp
  show "metricStep ToLower_ascii F (target [q_ok]) q_ok [''OWNER'', ''A''] [CString ''SYS'', CNil] 1 ''a''
          exporter0 = (Continue, exporter0, [])"
    using metric_emitted_only_for_float64 [OF c, of "[CString ''SYS'', CNil]"] by simp
  show "metricStep ToLower_ascii F (target [q_ok]) q_ok [''OWNER'', ''A''] [CString ''SYS'', CString ''8''] 1 ''a''
          exporter0 = (Continue, exporter0, [])"
    using metric_emitted_only_for_float64 [OF c, of "[CString ''SYS'', CString ''8'']"] by simp
qed

end
